theory Spec2Isabelle
  imports Complex_Main
begin

section \<open>Python values and exceptions\<close>

text \<open>
  A raised Python exception is a value: its class and the text that \<open>str(e)\<close> gives.
  A computation that may raise returns \<open>exn + 'a\<close>, with \<open>Inl\<close> for the raise.
\<close>

datatype exn_class =
    Exception | ValueError | TypeError | AttributeError | IndexError | KeyError
  | ZeroDivisionError | OverflowError | UnboundLocalError | NotImplementedError
  | BinasciiError | CvError

type_synonym exn = "exn_class \<times> string"

type_synonym 'a result = "exn + 'a"

definition bind_result :: "'a result \<Rightarrow> ('a \<Rightarrow> 'b result) \<Rightarrow> 'b result" where
  "bind_result m f = (case m of Inl e \<Rightarrow> Inl e | Inr x \<Rightarrow> f x)"

section \<open>Floating-point numbers\<close>

text \<open>
  A Python \<open>float\<close> and a numpy \<open>float64\<close> are IEEE 754 binary64 numbers, a numpy
  \<open>float32\<close> is a binary32 number: a finite real, an infinity with its sign (\<open>True\<close> for
  the negative one) or NaN. The two zeros are one value. Every operation computes the exact
  result and rounds it to the nearest number of the format, ties to even.
\<close>

datatype fp = Finite real | Infinity bool | NaN

definition round_half_even :: "real \<Rightarrow> int" where
  "round_half_even r =
     (let f = \<lfloor>r\<rfloor>; d = r - of_int f in
      if d < 1 / 2 then f else if 1 / 2 < d then f + 1 else if even f then f else f + 1)"

fun scan_up :: "nat \<Rightarrow> int \<Rightarrow> real \<Rightarrow> int" where
  \<comment> \<open>the exponent of \<open>a\<close>, searched upwards from \<open>e\<close> in at most \<open>n\<close> steps\<close>
  "scan_up 0 e a = e"
| "scan_up (Suc n) e a = (if 2 powi (e + 1) \<le> a then scan_up n (e + 1) a else e)"

fun scan_down :: "nat \<Rightarrow> int \<Rightarrow> real \<Rightarrow> int" where
  \<comment> \<open>the exponent of \<open>a\<close>, searched downwards from \<open>e\<close> in at most \<open>n\<close> steps\<close>
  "scan_down 0 e a = e"
| "scan_down (Suc n) e a = (if a < 2 powi e then scan_down n (e - 1) a else e)"

definition exponent :: "int \<Rightarrow> int \<Rightarrow> real \<Rightarrow> int" where
  \<comment> \<open>\<open>\<lfloor>log\<^sub>2 a\<rfloor>\<close> for a positive \<open>a\<close>, kept between the least and the greatest exponent\<close>
  "exponent emin emax a =
     (if 1 \<le> a then scan_up (nat emax) 0 a else scan_down (nat (- emin)) 0 a)"

definition round_to_format :: "nat \<Rightarrow> int \<Rightarrow> int \<Rightarrow> real \<Rightarrow> fp" where
  \<comment> \<open>rounding to the format with \<open>p\<close> significant bits and exponents \<open>emin .. emax\<close>\<close>
  "round_to_format p emin emax v =
     (if v = 0 then Finite 0
      else
        (let a = \<bar>v\<bar>;
             q = 2 powi (exponent emin emax a - int p + 1);
             r = of_int (round_half_even (a / q)) * q
         in if 2 powi (emax + 1) \<le> r then Infinity (v < 0)
            else Finite (if v < 0 then - r else r)))"

definition fl32 :: "real \<Rightarrow> fp" where
  "fl32 = round_to_format 24 (- 126) 127"

definition fl64 :: "real \<Rightarrow> fp" where
  "fl64 = round_to_format 53 (- 1022) 1023"

definition to_float32 :: "fp \<Rightarrow> fp" where
  \<comment> \<open>a \<open>float\<close> converted to \<open>float32\<close>\<close>
  "to_float32 a = (case a of Finite v \<Rightarrow> fl32 v | _ \<Rightarrow> a)"

definition fp_mul :: "(real \<Rightarrow> fp) \<Rightarrow> fp \<Rightarrow> fp \<Rightarrow> fp" where
  "fp_mul rnd a b =
     (case (a, b) of
        (Finite u, Finite v) \<Rightarrow> rnd (u * v)
      | (Finite u, Infinity s) \<Rightarrow> if u = 0 then NaN else Infinity (s \<noteq> (u < 0))
      | (Infinity s, Finite v) \<Rightarrow> if v = 0 then NaN else Infinity (s \<noteq> (v < 0))
      | (Infinity s, Infinity t) \<Rightarrow> Infinity (s \<noteq> t)
      | _ \<Rightarrow> NaN)"

definition fp_add :: "(real \<Rightarrow> fp) \<Rightarrow> fp \<Rightarrow> fp \<Rightarrow> fp" where
  "fp_add rnd a b =
     (case (a, b) of
        (Finite u, Finite v) \<Rightarrow> rnd (u + v)
      | (Finite u, Infinity s) \<Rightarrow> Infinity s
      | (Infinity s, Finite v) \<Rightarrow> Infinity s
      | (Infinity s, Infinity t) \<Rightarrow> if s = t then Infinity s else NaN
      | _ \<Rightarrow> NaN)"

definition fp_div :: "(real \<Rightarrow> fp) \<Rightarrow> fp \<Rightarrow> fp \<Rightarrow> fp" where
  \<comment> \<open>for a divisor that is not zero\<close>
  "fp_div rnd a b =
     (case (a, b) of
        (Finite u, Finite v) \<Rightarrow> rnd (u / v)
      | (Finite u, Infinity s) \<Rightarrow> Finite 0
      | (Infinity s, Finite v) \<Rightarrow> Infinity (s \<noteq> (v < 0))
      | _ \<Rightarrow> NaN)"

section \<open>numpy arrays\<close>

text \<open>
  An \<open>ndarray\<close> is its shape and its elements in C (row-major) order.
\<close>

record 'a ndarray =
  shape :: "nat list"
  data :: "'a list"

fun ravel :: "nat list \<Rightarrow> nat list \<Rightarrow> nat" where
  "ravel (d # ds) (i # is) = i * prod_list ds + ravel ds is"
| "ravel _ _ = 0"

fun unravel :: "nat list \<Rightarrow> nat \<Rightarrow> nat list" where
  "unravel [] p = []"
| "unravel (d # ds) p = (p div prod_list ds) # unravel ds (p mod prod_list ds)"

definition np_zeros2 :: "int \<Rightarrow> int \<Rightarrow> fp ndarray result" where
  \<comment> \<open>\<open>np.zeros((m, n), np.float32)\<close>\<close>
  "np_zeros2 m n =
     (if m < 0 \<or> n < 0 then Inl (ValueError, ''negative dimensions are not allowed'')
      else Inr \<lparr>shape = [nat m, nat n], data = replicate (nat m * nat n) (Finite 0)\<rparr>)"

definition np_mgrid2 :: "int \<Rightarrow> int \<Rightarrow> int ndarray" where
  \<comment> \<open>\<open>np.mgrid[0:a, 0:b]\<close>: shape \<open>(2, a, b)\<close>, plane 0 holds the first index, plane 1 the second\<close>
  "np_mgrid2 a b =
     \<lparr>shape = [2, nat a, nat b],
      data = concat (map (\<lambda>i. replicate (nat b) (int i)) [0..<nat a])
           @ concat (replicate (nat a) (map int [0..<nat b]))\<rparr>"

definition np_T :: "'a ndarray \<Rightarrow> 'a ndarray" where
  \<comment> \<open>\<open>arr.T\<close>: the axes reversed\<close>
  "np_T arr =
     \<lparr>shape = rev (shape arr),
      data = map (\<lambda>p. data arr ! ravel (shape arr) (rev (unravel (rev (shape arr)) p)))
               [0..<prod_list (shape arr)]\<rparr>"

definition np_reshape_m1_2 :: "'a ndarray \<Rightarrow> 'a ndarray result" where
  \<comment> \<open>\<open>arr.reshape(-1, 2)\<close>\<close>
  "np_reshape_m1_2 arr =
     (let size = prod_list (shape arr) in
      if size mod 2 \<noteq> 0 then Inl (ValueError, ''cannot reshape array into shape (2)'')
      else Inr \<lparr>shape = [size div 2, 2], data = data arr\<rparr>)"

definition assign_first_two_columns :: "fp ndarray \<Rightarrow> int ndarray \<Rightarrow> fp ndarray result" where
  \<comment> \<open>\<open>objp[:, :2] = src\<close> for a 2-D \<open>float32\<close> array \<open>objp\<close> with at least two columns and a
      2-D integer array \<open>src\<close>: each integer is stored rounded to \<open>float32\<close>; numpy broadcasts
      a one-row \<open>src\<close> and refuses any other shape mismatch\<close>
  "assign_first_two_columns objp src =
     (case (shape objp, shape src) of
        ([n, c], [n', c']) \<Rightarrow>
          if 2 \<le> c \<and> c' = 2 \<and> (n' = n \<or> n' = 1) then
            Inr (objp\<lparr>data :=
              concat (map (\<lambda>i. map (\<lambda>j.
                  if j < 2 then fl32 (real_of_int (data src ! ((if n' = n then i else 0) * 2 + j)))
                  else data objp ! (i * c + j)) [0..<c]) [0..<n])\<rparr>)
          else Inl (ValueError, ''could not broadcast input array'')
      | _ \<Rightarrow> Inl (ValueError, ''could not broadcast input array''))"

definition imul :: "fp ndarray \<Rightarrow> fp \<Rightarrow> fp ndarray" where
  \<comment> \<open>\<open>arr *= s\<close> for a \<open>float32\<close> array and a Python \<open>float\<close>: the scalar takes the type of
      the array, and every product is rounded to \<open>float32\<close>\<close>
  "imul arr s = arr\<lparr>data := map (\<lambda>v. fp_mul fl32 v (to_float32 s)) (data arr)\<rparr>"

section \<open>Correspondence generator (\<open>utils/chessboard_utils.py\<close>)\<close>

definition subscript :: "'a list \<Rightarrow> nat \<Rightarrow> 'a result" where
  \<comment> \<open>\<open>xs[i]\<close> for a constant, non-negative \<open>i\<close>\<close>
  "subscript xs i =
     (if i < length xs then Inr (xs ! i) else Inl (IndexError, ''tuple index out of range''))"

definition generate_object_points :: "int list \<Rightarrow> fp \<Rightarrow> fp ndarray result" where
  "generate_object_points pattern_size square_size =
     bind_result (subscript pattern_size 1) (\<lambda>ps1.
     bind_result (subscript pattern_size 0) (\<lambda>ps0.
     bind_result (np_zeros2 (ps1 * ps0) 3) (\<lambda>objp.
     bind_result (np_reshape_m1_2 (np_T (np_mgrid2 ps0 ps1))) (\<lambda>grid.
     bind_result (assign_first_two_columns objp grid) (\<lambda>objp.
     Inr (imul objp square_size))))))"

definition point3 :: "'a ndarray \<Rightarrow> nat \<Rightarrow> 'a \<times> 'a \<times> 'a" where
  \<comment> \<open>row \<open>i\<close> of an \<open>(N, 3)\<close> array\<close>
  "point3 arr i = (data arr ! (3 * i), data arr ! (3 * i + 1), data arr ! (3 * i + 2))"

section \<open>Command values\<close>

text \<open>
  The values a command or a response carries (\<open>ValueTypes\<close>): a dictionary is an
  association list in insertion order.
\<close>

datatype pyval =
    VNone | VBool bool | VInt int | VFloat fp | VStr string
  | VList "pyval list" | VDict "(string \<times> pyval) list"

definition py_get :: "pyval \<Rightarrow> string \<Rightarrow> pyval result" where
  \<comment> \<open>\<open>obj.get(key)\<close>: only a dictionary has the method\<close>
  "py_get obj key =
     (case obj of
        VDict d \<Rightarrow> Inr (case map_of d key of None \<Rightarrow> VNone | Some v \<Rightarrow> v)
      | _ \<Rightarrow> Inl (AttributeError, ''object has no attribute 'get' ''))"

function str_nat :: "nat \<Rightarrow> string" where
  \<comment> \<open>\<open>str(n)\<close> for a non-negative integer\<close>
  "str_nat n =
     (if n < 10 then [char_of (48 + n)] else str_nat (n div 10) @ [char_of (48 + n mod 10)])"
  by pat_completeness auto
termination
  by (relation "measure id") auto

section \<open>Image decoder (\<open>utils/chessboard_utils.py\<close>)\<close>

type_synonym image = "nat ndarray"

type_synonym corners = "fp ndarray"

text \<open>
  \<open>base64.b64decode\<close> of the Python standard library, for a \<open>str\<close> argument: the string
  must be ASCII; characters outside the alphabet are dropped; a quad that padding completes
  ends the input; data characters left over in an unfinished quad raise \<open>binascii.Error\<close>.
\<close>

definition b64_value :: "char \<Rightarrow> nat option" where
  "b64_value c =
     (let n = (of_char c :: nat) in
      if 65 \<le> n \<and> n \<le> 90 then Some (n - 65)
      else if 97 \<le> n \<and> n \<le> 122 then Some (n - 71)
      else if 48 \<le> n \<and> n \<le> 57 then Some (n + 4)
      else if n = 43 then Some 62
      else if n = 47 then Some 63
      else None)"

fun a2b_base64 :: "string \<Rightarrow> nat \<Rightarrow> nat \<Rightarrow> nat \<Rightarrow> nat list \<Rightarrow> nat \<times> nat list" where
  \<comment> \<open>the decoding loop over the characters, with the position in the quad, the bits left
      over, the padding seen and the bytes written; the result is the final position in the
      quad and the bytes\<close>
  "a2b_base64 [] quad_pos leftchar pads out = (quad_pos, out)"
| "a2b_base64 (c # cs) quad_pos leftchar pads out =
     (if c = CHR ''='' then
        (if 2 \<le> quad_pos \<and> 4 \<le> quad_pos + (pads + 1) then (0, out)
         else a2b_base64 cs quad_pos leftchar (if 2 \<le> quad_pos then pads + 1 else pads) out)
      else
        (case b64_value c of
           None \<Rightarrow> a2b_base64 cs quad_pos leftchar pads out
         | Some v \<Rightarrow>
             (if quad_pos = 0 then a2b_base64 cs 1 v 0 out
              else if quad_pos = 1 then
                a2b_base64 cs 2 (v mod 16) 0 (out @ [(leftchar * 4 + v div 16) mod 256])
              else if quad_pos = 2 then
                a2b_base64 cs 3 (v mod 4) 0 (out @ [(leftchar * 16 + v div 4) mod 256])
              else
                a2b_base64 cs 0 0 0 (out @ [(leftchar * 64 + v) mod 256]))))"

definition b64decode :: "string \<Rightarrow> nat list result" where
  "b64decode s =
     (if \<exists>c \<in> set s. 128 \<le> (of_char c :: nat) then
        Inl (ValueError, ''string argument should contain only ASCII characters'')
      else
        (case a2b_base64 s 0 0 0 [] of (quad_pos, out) \<Rightarrow>
           if quad_pos = 0 then Inr out
           else if quad_pos = 1 then
             Inl (BinasciiError, ''Invalid base64-encoded string: number of data characters cannot be 1 more than a multiple of 4'')
           else Inl (BinasciiError, ''Incorrect padding'')))"

datatype color_conversion = COLOR_RGB2GRAY | COLOR_BGR2RGB

text \<open>
  What the services call and this repository does not define: OpenCV (\<open>cv2\<close>), the camera
  of the host framework, and the conversion helpers of \<open>utils/utils.py\<close>. Each is a
  parameter; one that can raise returns a \<open>result\<close>.
\<close>

record calibration =
  \<comment> \<open>the tuple \<open>cv2.calibrateCamera\<close> returns\<close>
  ret :: fp
  camera_matrix :: "fp ndarray"
  dist_coeffs :: "fp ndarray"
  rvecs :: "fp ndarray list"
  tvecs :: "fp ndarray list"

datatype mime_type = JPEG | PNG | VIAM_RGBA | OTHER_MIME

record named_image =
  mime :: mime_type
  image_data :: "nat list option"

record intrinsic_parameters =
  focal_x_px :: fp
  focal_y_px :: fp
  center_x_px :: fp
  center_y_px :: fp

record externals =
  cv2_imdecode :: "nat list \<Rightarrow> image option result"
  cv2_cvtColor :: "image \<Rightarrow> color_conversion \<Rightarrow> image result"
  cv2_findChessboardCorners :: "image \<Rightarrow> int list \<Rightarrow> nat \<Rightarrow> (bool \<times> corners) result"
  cv2_cornerSubPix :: "image \<Rightarrow> corners \<Rightarrow> corners result"
  cv2_calibrateCamera ::
    "fp ndarray list \<Rightarrow> corners list \<Rightarrow> (nat \<times> nat) option \<Rightarrow> nat \<Rightarrow> calibration result"
  cv2_projectPoints ::
    "fp ndarray \<Rightarrow> fp ndarray \<Rightarrow> fp ndarray \<Rightarrow> fp ndarray \<Rightarrow> fp ndarray \<Rightarrow> corners result"
  cv2_norm :: "corners \<Rightarrow> corners \<Rightarrow> nat \<Rightarrow> fp result"
  cv2_solvePnP ::
    "fp ndarray \<Rightarrow> corners \<Rightarrow> fp ndarray \<Rightarrow> fp ndarray
       \<Rightarrow> (bool \<times> fp ndarray \<times> fp ndarray) result"
  cv2_Rodrigues :: "fp ndarray \<Rightarrow> fp ndarray result"
  viam_to_pil_image :: "nat list \<Rightarrow> image result"
  camera_get_images :: "named_image list result"
  camera_get_properties :: "intrinsic_parameters result"
  camera_name :: string
  call_go_mat2ov :: "fp ndarray \<Rightarrow> (fp \<times> fp \<times> fp \<times> fp) result"

definition split_after_comma :: "string \<Rightarrow> string" where
  \<comment> \<open>\<open>s.split(',', 1)[1]\<close> for an \<open>s\<close> that holds a comma\<close>
  "split_after_comma s = drop 1 (dropWhile (\<lambda>c. c \<noteq> CHR '','') s)"

definition strip_data_uri :: "string \<Rightarrow> string" where
  \<comment> \<open>\<open>if ',' in base64_str: base64_str = base64_str.split(',', 1)[1]\<close>\<close>
  "strip_data_uri s = (if CHR '','' \<in> set s then split_after_comma s else s)"

definition decode_base64_image :: "externals \<Rightarrow> pyval \<Rightarrow> image option result" where
  \<comment> \<open>\<open>None\<close> is the image that \<open>cv2.imdecode\<close> could not decode. An argument that is not a
      \<open>str\<close> raises at \<open>',' in base64_str\<close>, at \<open>.split\<close> or in \<open>b64decode\<close>.\<close>
  "decode_base64_image ext base64_str =
     (case base64_str of
        VStr s \<Rightarrow>
          bind_result (b64decode (strip_data_uri s)) (\<lambda>img_bytes.
          bind_result (cv2_imdecode ext img_bytes) (\<lambda>decoded.
            (case decoded of
               None \<Rightarrow> Inr None
             | Some im \<Rightarrow>
                 if length (shape im) = 3
                 then bind_result (cv2_cvtColor ext im COLOR_BGR2RGB) (\<lambda>rgb. Inr (Some rgb))
                 else Inr (Some im))))
      | VList xs \<Rightarrow>
          if VStr '','' \<in> set xs then Inl (AttributeError, ''list object has no attribute split'')
          else Inl (TypeError, ''argument should be a bytes-like object or ASCII string'')
      | VDict d \<Rightarrow>
          if '','' \<in> fst ` set d then Inl (AttributeError, ''dict object has no attribute split'')
          else Inl (TypeError, ''argument should be a bytes-like object or ASCII string'')
      | _ \<Rightarrow> Inl (TypeError, ''argument is not iterable''))"

section \<open>Corner detector (\<open>utils/chessboard_utils.py\<close>)\<close>

definition CALIB_CB_ADAPTIVE_THRESH :: nat where "CALIB_CB_ADAPTIVE_THRESH = 1"
definition CALIB_CB_NORMALIZE_IMAGE :: nat where "CALIB_CB_NORMALIZE_IMAGE = 2"
definition CALIB_RATIONAL_MODEL :: nat where "CALIB_RATIONAL_MODEL = 16384"
definition NORM_L2 :: nat where "NORM_L2 = 4"

definition detect_chessboard_corners :: "externals \<Rightarrow> image \<Rightarrow> int list \<Rightarrow> corners option result" where
  "detect_chessboard_corners ext im pattern =
     bind_result (if length (shape im) = 3 then cv2_cvtColor ext im COLOR_RGB2GRAY
                  else Inr im) (\<lambda>gray.
     bind_result (cv2_findChessboardCorners ext gray pattern
                    (CALIB_CB_ADAPTIVE_THRESH + CALIB_CB_NORMALIZE_IMAGE)) (\<lambda>(found, cs).
       if \<not> found then Inr None
       else bind_result (cv2_cornerSubPix ext gray cs) (\<lambda>refined. Inr (Some refined))))"

section \<open>Intrinsics calibrator (\<open>models/camera_calibration.py\<close>)\<close>

record config =
  \<comment> \<open>what \<open>reconfigure\<close> stores on the service\<close>
  pattern_size :: "int list"
  square_size :: fp

record loop_state =
  object_points :: "fp ndarray list"
  image_points :: "corners list"
  image_size :: "(nat \<times> nat) option"
  successful_detections :: nat

definition initial_state :: loop_state where
  "initial_state =
     \<lparr>object_points = [], image_points = [], image_size = None, successful_detections = 0\<rparr>"

definition store_image_size :: "loop_state \<Rightarrow> image \<Rightarrow> loop_state result" where
  \<comment> \<open>\<open>if image_size is None: image_size = (image.shape[1], image.shape[0])\<close>\<close>
  "store_image_size st im =
     (if image_size st = None then
        bind_result (subscript (shape im) 1) (\<lambda>width.
        bind_result (subscript (shape im) 0) (\<lambda>height.
          Inr (st\<lparr>image_size := Some (width, height)\<rparr>)))
      else Inr st)"

definition loop_body :: "externals \<Rightarrow> config \<Rightarrow> loop_state \<Rightarrow> pyval \<Rightarrow> loop_state" where
  \<comment> \<open>one iteration of the loop over the images: every raise inside the \<open>try\<close> is caught,
      and what was assigned before the raise stays assigned\<close>
  "loop_body ext self st base64_img =
     (case decode_base64_image ext base64_img of
        Inl e \<Rightarrow> st
      | Inr None \<Rightarrow> st
      | Inr (Some im) \<Rightarrow>
          (case store_image_size st im of
             Inl e \<Rightarrow> st
           | Inr st1 \<Rightarrow>
               (case detect_chessboard_corners ext im (pattern_size self) of
                  Inl e \<Rightarrow> st1
                | Inr None \<Rightarrow> st1
                | Inr (Some cs) \<Rightarrow>
                    (case generate_object_points (pattern_size self) (square_size self) of
                       Inl e \<Rightarrow> st1
                     | Inr objp \<Rightarrow>
                         st1\<lparr>object_points := object_points st1 @ [objp],
                             image_points := image_points st1 @ [cs],
                             successful_detections := successful_detections st1 + 1\<rparr>))))"

definition np_len :: "'a ndarray \<Rightarrow> nat result" where
  \<comment> \<open>\<open>len(arr)\<close>\<close>
  "np_len arr =
     (case shape arr of [] \<Rightarrow> Inl (TypeError, ''len() of unsized object'') | n # _ \<Rightarrow> Inr n)"

definition float_of_int :: "int \<Rightarrow> fp result" where
  \<comment> \<open>a Python \<open>int\<close> converted to \<open>float\<close>\<close>
  "float_of_int n =
     (case fl64 (real_of_int n) of
        Finite v \<Rightarrow> Inr (Finite v)
      | _ \<Rightarrow> Inl (OverflowError, ''int too large to convert to float''))"

definition py_div :: "fp \<Rightarrow> nat \<Rightarrow> fp result" where
  \<comment> \<open>\<open>x / n\<close> for a \<open>float\<close> \<open>x\<close> and a length \<open>n\<close>\<close>
  "py_div v n =
     (if n = 0 then Inl (ZeroDivisionError, ''float division by zero'')
      else bind_result (float_of_int (int n)) (\<lambda>d. Inr (fp_div fl64 v d)))"

definition py_add_int_float :: "int \<Rightarrow> fp \<Rightarrow> fp result" where
  \<comment> \<open>\<open>n + x\<close> for an \<open>int\<close> \<open>n\<close> and a \<open>float\<close> \<open>x\<close>\<close>
  "py_add_int_float n v = bind_result (float_of_int n) (\<lambda>d. Inr (fp_add fl64 d v))"

datatype num = IntNum int | FloatNum fp

definition add_float :: "num \<Rightarrow> fp \<Rightarrow> fp result" where
  \<comment> \<open>\<open>acc + x\<close> for a \<open>float\<close> \<open>x\<close> and an \<open>acc\<close> that is an \<open>int\<close> or a \<open>float\<close>\<close>
  "add_float acc v =
     (case acc of IntNum n \<Rightarrow> py_add_int_float n v | FloatNum a \<Rightarrow> Inr (fp_add fl64 a v))"

definition div_len :: "num \<Rightarrow> nat \<Rightarrow> fp result" where
  \<comment> \<open>\<open>acc / n\<close> for a length \<open>n\<close>\<close>
  "div_len acc n =
     (case acc of
        FloatNum a \<Rightarrow> py_div a n
      | IntNum k \<Rightarrow>
          if n = 0 then Inl (ZeroDivisionError, ''division by zero'')
          else (case fl64 (real_of_int k / real n) of
                  Finite v \<Rightarrow> Inr (Finite v)
                | _ \<Rightarrow> Inl (OverflowError, ''integer division result too large for a float'')))"

fun reprojection_errors ::
  "externals \<Rightarrow> calibration \<Rightarrow> fp ndarray list \<Rightarrow> corners list \<Rightarrow> nat list \<Rightarrow> num
     \<Rightarrow> num result" where
  \<comment> \<open>\<open>for i in range(len(object_points))\<close>, with the running \<open>mean_error\<close>\<close>
  "reprojection_errors ext cal ops ips [] mean_error = Inr mean_error"
| "reprojection_errors ext cal ops ips (i # rest) mean_error =
     bind_result (subscript ops i) (\<lambda>objp.
     bind_result (subscript (rvecs cal) i) (\<lambda>rvec.
     bind_result (subscript (tvecs cal) i) (\<lambda>tvec.
     bind_result (cv2_projectPoints ext objp rvec tvec (camera_matrix cal) (dist_coeffs cal))
       (\<lambda>imgpoints2.
     bind_result (subscript ips i) (\<lambda>detected_corners.
     bind_result (cv2_norm ext detected_corners imgpoints2 NORM_L2) (\<lambda>nrm.
     bind_result (np_len imgpoints2) (\<lambda>n.
     bind_result (py_div nrm n) (\<lambda>error.
     bind_result (add_float mean_error error) (\<lambda>mean_error'.
       reprojection_errors ext cal ops ips rest (FloatNum mean_error'))))))))))"

definition item2 :: "fp ndarray \<Rightarrow> nat \<Rightarrow> nat \<Rightarrow> fp result" where
  \<comment> \<open>\<open>float(arr[i, j])\<close>\<close>
  "item2 arr i j =
     (case shape arr of
        [r, c] \<Rightarrow> if i < r \<and> j < c then Inr (data arr ! (i * c + j))
                  else Inl (IndexError, ''index is out of bounds'')
      | _ \<Rightarrow> Inl (IndexError, ''too many indices for array''))"

definition item1 :: "fp ndarray \<Rightarrow> nat \<Rightarrow> fp result" where
  \<comment> \<open>\<open>float(arr[i])\<close>: \<open>arr[i]\<close> must hold one element\<close>
  "item1 arr i =
     (case shape arr of
        [] \<Rightarrow> Inl (IndexError, ''too many indices for array'')
      | n # rest \<Rightarrow>
          if n \<le> i then Inl (IndexError, ''index is out of bounds'')
          else if prod_list rest = 1 then Inr (data arr ! i)
          else Inl (TypeError, ''only length-1 arrays can be converted to Python scalars''))"

definition insufficient_message :: "nat \<Rightarrow> nat \<Rightarrow> string" where
  "insufficient_message found num_images =
     ''Only found chessboard pattern in '' @ str_nat found @ ''/'' @ str_nat num_images
       @ '' images. Need at least 3 valid images for calibration.''"

definition calibrate_camera_from_images :: "externals \<Rightarrow> config \<Rightarrow> pyval list \<Rightarrow> pyval result" where
  \<comment> \<open>\<open>CameraCalibration._calibrate_camera_from_images\<close>\<close>
  "calibrate_camera_from_images ext self base64_images =
     (let st = foldl (loop_body ext self) initial_state base64_images;
          num_images = length base64_images in
      if successful_detections st < 3 then
        Inl (Exception, insufficient_message (successful_detections st) num_images)
      else
        bind_result (cv2_calibrateCamera ext (object_points st) (image_points st) (image_size st)
                       CALIB_RATIONAL_MODEL) (\<lambda>cal.
        bind_result (reprojection_errors ext cal (object_points st) (image_points st)
                       [0..<length (object_points st)] (IntNum 0)) (\<lambda>mean_error.
        bind_result (div_len mean_error (length (object_points st))) (\<lambda>reprojection_error.
        bind_result (case image_size st of
                       None \<Rightarrow> Inl (TypeError, ''NoneType object is not subscriptable'')
                     | Some sz \<Rightarrow> Inr sz) (\<lambda>(width, height).
        bind_result (item2 (camera_matrix cal) 0 0) (\<lambda>fx.
        bind_result (item2 (camera_matrix cal) 1 1) (\<lambda>fy.
        bind_result (item2 (camera_matrix cal) 0 2) (\<lambda>cx.
        bind_result (item2 (camera_matrix cal) 1 2) (\<lambda>cy.
        bind_result (item1 (dist_coeffs cal) 0) (\<lambda>k1.
        bind_result (item1 (dist_coeffs cal) 1) (\<lambda>k2.
        bind_result (item1 (dist_coeffs cal) 2) (\<lambda>p1.
        bind_result (item1 (dist_coeffs cal) 3) (\<lambda>p2.
        bind_result (item1 (dist_coeffs cal) 4) (\<lambda>k3.
          Inr (VDict
            [(''success'', VBool True),
             (''rms_error'', VFloat (ret cal)),
             (''reprojection_error'', VFloat reprojection_error),
             (''num_images'', VInt (int (successful_detections st))),
             (''image_size'', VDict [(''width'', VInt (int width)), (''height'', VInt (int height))]),
             (''camera_matrix'',
                VDict [(''fx'', VFloat fx), (''fy'', VFloat fy), (''cx'', VFloat cx), (''cy'', VFloat cy)]),
             (''distortion_coefficients'',
                VDict [(''k1'', VFloat k1), (''k2'', VFloat k2), (''p1'', VFloat p1),
                       (''p2'', VFloat p2), (''k3'', VFloat k3)])])))))))))))))))"

definition repr_keys :: "(string \<times> pyval) list \<Rightarrow> string" where
  \<comment> \<open>\<open>str(list(command.keys()))\<close>, for keys that need no escaping\<close>
  "repr_keys command =
     ''['' @ concat (map (\<lambda>(i, k). (if i = 0 then [] else '', '') @ [CHR 0x27] @ k @ [CHR 0x27])
                      (zip [0..<length command] (map fst command))) @ '']''"

definition do_command :: "externals \<Rightarrow> config \<Rightarrow> (string \<times> pyval) list \<Rightarrow> pyval result" where
  \<comment> \<open>\<open>CameraCalibration.do_command\<close>\<close>
  "do_command ext self command =
     (case map_of command ''calibrate_camera'' of
        Some params0 \<Rightarrow>
          (let params = (if params0 = VNone then VDict [] else params0) in
           bind_result (py_get params ''images'') (\<lambda>images.
             (case images of
                VList imgs \<Rightarrow>
                  if length imgs = 0 then
                    Inr (VDict [(''success'', VBool False),
                                (''error'', VStr ''At least one image is required for calibration.'')])
                  else
                    (case calibrate_camera_from_images ext self imgs of
                       Inr result \<Rightarrow> Inr result
                     | Inl e \<Rightarrow> Inr (VDict [(''success'', VBool False), (''error'', VStr (snd e))]))
              | _ \<Rightarrow>
                  Inr (VDict [(''success'', VBool False),
                              (''error'', VStr ''Missing required 'images' parameter. Must be a list of base64 encoded image strings.'')]))))
      | None \<Rightarrow> Inl (NotImplementedError, ''command not supported: '' @ repr_keys command))"

section \<open>Pose solver (\<open>models/chessboard.py\<close>)\<close>

record pose =
  x :: fp
  y :: fp
  z :: fp
  o_x :: fp
  o_y :: fp
  o_z :: fp
  theta :: fp

record pose_in_frame =
  reference_frame :: string
  pose_of :: pose

definition np_array_float32 :: "num list list \<Rightarrow> fp ndarray" where
  \<comment> \<open>\<open>np.array(rows, dtype=np.float32)\<close> for rows of one length: every number is rounded to
      \<open>float32\<close>\<close>
  "np_array_float32 rows =
     \<lparr>shape = [length rows, length (hd rows)],
      data = map (\<lambda>v. case v of IntNum n \<Rightarrow> fl32 (real_of_int n) | FloatNum a \<Rightarrow> to_float32 a)
               (concat rows)\<rparr>"

definition np_array1_float32 :: "real list \<Rightarrow> fp ndarray" where
  \<comment> \<open>\<open>np.array(literals, dtype=np.float32)\<close> for decimal literals: each is read as a \<open>float\<close>
      and then rounded to \<open>float32\<close>\<close>
  "np_array1_float32 literals =
     \<lparr>shape = [length literals], data = map (\<lambda>v. to_float32 (fl64 v)) literals\<rparr>"

definition hardcoded_dist :: "fp ndarray" where
  \<comment> \<open>the literal \<open>dist\<close> of \<open>get_camera_intrinsics\<close>\<close>
  "hardcoded_dist =
     np_array1_float32
       [0.11473497003316879, - 0.31621694564819336, 0.00024490756914019585,
        - 0.0002616790879983455, 0.2385278344154358]"

definition get_camera_intrinsics :: "externals \<Rightarrow> (fp ndarray \<times> fp ndarray) result" where
  "get_camera_intrinsics ext =
     bind_result (camera_get_properties ext) (\<lambda>intrinsics.
       Inr (np_array_float32
              [[FloatNum (focal_x_px intrinsics), IntNum 0, FloatNum (center_x_px intrinsics)],
               [IntNum 0, FloatNum (focal_y_px intrinsics), FloatNum (center_y_px intrinsics)],
               [IntNum 0, IntNum 0, IntNum 1]],
            hardcoded_dist))"

datatype 'a local_var = Unbound | Bound 'a

fun find_jpeg :: "named_image list \<Rightarrow> named_image list \<Rightarrow> nat list option local_var
    \<Rightarrow> nat list option local_var" where
  \<comment> \<open>\<open>for image in cam_images[0]: if image.mime_type == CameraMimeType.JPEG:
      viam_image = cam_images[0][0].data\<close>; the first argument is \<open>cam_images[0]\<close>, the second
      what is left of the iteration\<close>
  "find_jpeg all [] viam_image = viam_image"
| "find_jpeg all (im # rest) viam_image =
     find_jpeg all rest (if mime im = JPEG then Bound (image_data (all ! 0)) else viam_image)"

definition reshape_3_1_times_1000 :: "fp ndarray \<Rightarrow> fp ndarray result" where
  \<comment> \<open>\<open>tvec.reshape(3, 1) * 1000\<close> for the \<open>float64\<close> array \<open>tvec\<close>: every product is rounded to
      \<open>float64\<close>\<close>
  "reshape_3_1_times_1000 tvec =
     (if prod_list (shape tvec) = 3
      then Inr \<lparr>shape = [3, 1], data = map (\<lambda>v. fp_mul fl64 v (Finite 1000)) (data tvec)\<rparr>
      else Inl (ValueError, ''cannot reshape array into shape (3,1)''))"

definition get_poses :: "externals \<Rightarrow> config \<Rightarrow> (string option \<times> pose_in_frame option) result" where
  \<comment> \<open>\<open>Chessboard.get_poses\<close>: the pair it returns\<close>
  "get_poses ext self =
     bind_result (camera_get_images ext) (\<lambda>cam_images0.
       (case find_jpeg cam_images0 cam_images0 Unbound of
          Unbound \<Rightarrow>
            Inl (UnboundLocalError,
                 ''cannot access local variable 'viam_image' where it is not associated with a value'')
        | Bound None \<Rightarrow> Inr (Some ''Could not get latest image from camera'', None)
        | Bound (Some viam_image) \<Rightarrow>
            bind_result (viam_to_pil_image ext viam_image) (\<lambda>im0.
            bind_result (if length (shape im0) = 3 then cv2_cvtColor ext im0 COLOR_RGB2GRAY
                         else Inr im0) (\<lambda>im.
            bind_result (get_camera_intrinsics ext) (\<lambda>(K, dist).
            bind_result (cv2_findChessboardCorners ext im (pattern_size self)
                           (CALIB_CB_ADAPTIVE_THRESH + CALIB_CB_NORMALIZE_IMAGE)) (\<lambda>(found, cs0).
              if \<not> found then Inr (Some ''Could not find chessboard pattern in image'', None)
              else
                bind_result (cv2_cornerSubPix ext im cs0) (\<lambda>cs.
                bind_result (generate_object_points (pattern_size self) (square_size self)) (\<lambda>objp.
                bind_result (cv2_solvePnP ext objp cs K dist) (\<lambda>(success, rvec, tvec).
                  if \<not> success then Inr (None, None)
                  else
                    bind_result (cv2_Rodrigues ext rvec) (\<lambda>R.
                    bind_result (call_go_mat2ov ext (np_T R)) (\<lambda>(ox, oy, oz, th).
                    bind_result (reshape_3_1_times_1000 tvec) (\<lambda>t.
                      Inr (Some ''pose'',
                           Some \<lparr>reference_frame = camera_name ext,
                                 pose_of = \<lparr>x = data t ! 0, y = data t ! 1, z = data t ! 2,
                                            o_x = ox, o_y = oy, o_z = oz, theta = th\<rparr>\<rparr>)))))))))))))"

section \<open>Notions the properties are stated with\<close>

definition detected :: "externals \<Rightarrow> config \<Rightarrow> pyval \<Rightarrow> corners option" where
  \<comment> \<open>the corners of an input image that decodes and in which the pattern is found\<close>
  "detected ext self base64_img =
     (case decode_base64_image ext base64_img of
        Inr (Some im) \<Rightarrow>
          (case detect_chessboard_corners ext im (pattern_size self) of
             Inr (Some cs) \<Rightarrow> Some cs
           | _ \<Rightarrow> None)
      | _ \<Rightarrow> None)"

definition detections :: "externals \<Rightarrow> config \<Rightarrow> pyval list \<Rightarrow> corners list" where
  \<comment> \<open>the corner sets of the input images with a successful corner detection, in input order\<close>
  "detections ext self base64_images = List.map_filter (detected ext self) base64_images"

fun first_decoded_size :: "externals \<Rightarrow> pyval list \<Rightarrow> (nat \<times> nat) option" where
  \<comment> \<open>(width, height) of the first input image that decodes into an array with rows and
      columns\<close>
  "first_decoded_size ext [] = None"
| "first_decoded_size ext (base64_img # rest) =
     (case decode_base64_image ext base64_img of
        Inr (Some im) \<Rightarrow>
          if 2 \<le> length (shape im) then Some (shape im ! 1, shape im ! 0)
          else first_decoded_size ext rest
      | _ \<Rightarrow> first_decoded_size ext rest)"

definition reprojected :: "externals \<Rightarrow> calibration \<Rightarrow> fp ndarray list \<Rightarrow> nat \<Rightarrow> corners" where
  \<comment> \<open>the object points of image \<open>i\<close> projected through the solved intrinsics and the
      extrinsics of image \<open>i\<close>\<close>
  "reprojected ext cal ops i =
     projr (cv2_projectPoints ext (ops ! i) (rvecs cal ! i) (tvecs cal ! i)
              (camera_matrix cal) (dist_coeffs cal))"

definition number_of_points :: "corners \<Rightarrow> nat" where
  \<comment> \<open>the points of a corner set of shape \<open>(N, 1, 2)\<close>\<close>
  "number_of_points a = hd (shape a)"

definition image_error ::
  "externals \<Rightarrow> calibration \<Rightarrow> fp ndarray list \<Rightarrow> corners list \<Rightarrow> nat \<Rightarrow> fp" where
  \<comment> \<open>for image \<open>i\<close>: the L2 norm between the detected and the reprojected corners, divided
      by the number of points\<close>
  "image_error ext cal ops ips i =
     fp_div fl64 (projr (cv2_norm ext (ips ! i) (reprojected ext cal ops i) NORM_L2))
       (fl64 (real (number_of_points (reprojected ext cal ops i))))"

definition float_sum :: "fp list \<Rightarrow> fp" where
  \<comment> \<open>the sum of a list of floats, added in order from 0\<close>
  "float_sum vs = foldl (fp_add fl64) (Finite 0) vs"

definition mean_reprojection_error ::
  "externals \<Rightarrow> calibration \<Rightarrow> fp ndarray list \<Rightarrow> corners list \<Rightarrow> fp" where
  \<comment> \<open>the average of the image errors over all images\<close>
  "mean_reprojection_error ext cal ops ips =
     fp_div fl64 (float_sum (map (image_error ext cal ops ips) [0..<length ips]))
       (fl64 (real (length ips)))"

section \<open>A concrete environment\<close>

text \<open>
  A small world to run the services in: the one-byte payload \<open>A\<close> is a 1 x 2 colour picture
  without a pattern, the payload \<open>B\<close> a 2 x 1 colour picture of a 2 x 2 pattern, and every
  other payload is not a picture. The solver returns fixed intrinsics, and the norm of every
  reprojection is 5.
\<close>

definition board_corners :: corners where
  "board_corners = \<lparr>shape = [4, 1, 2], data = map Finite [0, 0, 1, 0, 0, 1, 1, 1]\<rparr>"

definition picture_without_board :: image where
  "picture_without_board = \<lparr>shape = [1, 2, 3], data = [0, 0, 0, 0, 0, 0]\<rparr>"

definition picture_of_board :: image where
  "picture_of_board = \<lparr>shape = [2, 1, 3], data = [9, 9, 9, 9, 9, 9]\<rparr>"

definition fixed_calibration :: "nat \<Rightarrow> calibration" where
  "fixed_calibration n =
     \<lparr>ret = Finite (1 / 4),
      camera_matrix = \<lparr>shape = [3, 3], data = map Finite [600, 0, 320, 0, 610, 240, 0, 0, 1]\<rparr>,
      dist_coeffs = \<lparr>shape = [5], data = map Finite [1, 2, 3, 4, 5]\<rparr>,
      rvecs = replicate n \<lparr>shape = [3, 1], data = map Finite [0, 0, 0]\<rparr>,
      tvecs = replicate n \<lparr>shape = [3, 1], data = map Finite [0, 0, 1]\<rparr>\<rparr>"

definition example_externals :: externals where
  "example_externals =
     \<lparr>cv2_imdecode = (\<lambda>bytes.
        if bytes = [] then Inl (CvError, ''(-215:Assertion failed) !buf.empty()'')
        else if bytes = [65] then Inr (Some picture_without_board)
        else if bytes = [66] then Inr (Some picture_of_board)
        else Inr None),
      cv2_cvtColor = (\<lambda>im code.
        case code of
          COLOR_BGR2RGB \<Rightarrow> Inr im
        | COLOR_RGB2GRAY \<Rightarrow> Inr \<lparr>shape = take 2 (shape im), data = take 2 (data im)\<rparr>),
      cv2_findChessboardCorners = (\<lambda>gray pattern flags.
        Inr (gray = \<lparr>shape = [2, 1], data = [9, 9]\<rparr> \<and> pattern = [2, 2], board_corners)),
      cv2_cornerSubPix = (\<lambda>gray cs. Inr cs),
      cv2_calibrateCamera = (\<lambda>ops ips sz flags. Inr (fixed_calibration (length ops))),
      cv2_projectPoints = (\<lambda>objp rvec tvec K d.
        Inr \<lparr>shape = [4, 1, 2], data = map Finite [3, 4, 1, 0, 0, 1, 1, 1]\<rparr>),
      cv2_norm = (\<lambda>a b norm_type. Inr (Finite 5)),
      cv2_solvePnP = (\<lambda>objp cs K d.
        Inr (True, \<lparr>shape = [3, 1], data = map Finite [0, 0, 0]\<rparr>,
                   \<lparr>shape = [3, 1], data = map Finite [1 / 8, 2, 3]\<rparr>)),
      cv2_Rodrigues = (\<lambda>rvec.
        Inr \<lparr>shape = [3, 3], data = map Finite [1, 2, 3, 4, 5, 6, 7, 8, 9]\<rparr>),
      viam_to_pil_image = (\<lambda>bytes. Inr picture_of_board),
      camera_get_images = Inr [\<lparr>mime = JPEG, image_data = Some [66]\<rparr>],
      camera_get_properties =
        Inr \<lparr>focal_x_px = Finite 600, focal_y_px = Finite 610,
             center_x_px = Finite 320, center_y_px = Finite 240\<rparr>,
      camera_name = ''cam'',
      call_go_mat2ov = (\<lambda>R. Inr (data R ! 1, data R ! 2, data R ! 3, Finite 90))\<rparr>"

definition example_config :: config where
  "example_config = \<lparr>pattern_size = [2, 2], square_size = Finite 25\<rparr>"

section \<open>Verification: the correspondence generator\<close>


lemma concat_map_nth:
  assumes "i < m" "j < n" "\<And>x. x < m \<Longrightarrow> length (f x) = n"
  shows "concat (map f [0..<m]) ! (i * n + j) = f i ! j"
  using assms
proof (induction m arbitrary: i)
  case 0 then show ?case by simp
next
  case (Suc m)
  have len: "length (concat (map f [0..<m])) = m * n"
    using Suc.prems(3) by (induction m) (auto simp: )
  show ?case
  proof (cases "i < m")
    case True
    then have "i * n + j < m * n"
      using Suc.prems(2) by (metis add.commute less_eq_Suc_le mult_Suc mult_le_mono1 add_less_le_mono order_less_le_trans nat_add_left_cancel_less)
    then show ?thesis using Suc True len by (simp add: nth_append)
  next
    case False
    then have "i = m" using Suc.prems(1) by simp
    then show ?thesis using Suc.prems len by (simp add: nth_append)
  qed
qed

lemma length_concat_map_const:
  assumes "\<And>x. x < m \<Longrightarrow> length (f x) = n"
  shows "length (concat (map f [0..<m])) = m * n"
  using assms by (induction m) auto

lemma mgrid_plane0:
  assumes "i < m" "j < n"
  shows "data (np_mgrid2 (int m) (int n)) ! (i * n + j) = int i"
proof -
  have len: "length (concat (map (\<lambda>i. replicate n (int i)) [0..<m])) = m * n"
    by (rule length_concat_map_const) simp
  have "i * n + j < m * n" using assms
    by (metis add.commute less_eq_Suc_le mult_Suc mult_le_mono1 add_less_le_mono order_less_le_trans nat_add_left_cancel_less)
  then show ?thesis using assms len
    by (simp add: np_mgrid2_def nth_append concat_map_nth[where n=n])
qed

lemma mgrid_plane1:
  assumes "i < m" "j < n"
  shows "data (np_mgrid2 (int m) (int n)) ! (m * n + i * n + j) = int j"
proof -
  have len: "length (concat (map (\<lambda>i. replicate n (int i)) [0..<m])) = m * n"
    by (rule length_concat_map_const) simp
  have r: "replicate m (map int [0..<n]) = map (\<lambda>i. map int [0..<n]) [0..<m]"
    by (simp add: map_replicate_const)
  show ?thesis using assms len
    by (simp add: np_mgrid2_def nth_append r concat_map_nth[where n=n] add.assoc)
qed


lemma grid_index_bound: "i < m \<Longrightarrow> j < n \<Longrightarrow> i * n + j < m * (n::nat)"
  by (metis add.commute less_eq_Suc_le mult_Suc mult_le_mono1 order_less_le_trans nat_add_left_cancel_less)

lemma mgrid_T_nth:
  assumes "i < n * m" "k < 2"
  shows "data (np_T (np_mgrid2 (int m) (int n))) ! (2 * i + k)
           = (if k = 0 then int (i mod m) else int (i div m))"
proof -
  have m0: "0 < m" using assms(1) by (cases m) auto
  have c: "i mod m < m" using m0 by simp
  have r: "i div m < n" using assms(1) by (simp add: less_mult_imp_div_less)
  have p: "2 * i + k < 2 * (m * n)" using assms by (simp add: mult.commute)
  have h1: "(2 * i + k) div 2 = i" using assms(2) by simp
  have h2: "(2 * i + k) mod 2 = k" using assms(2) by simp
  have d1: "(2 * i + k) div (m * 2) = i div m"
    using div_mult2_eq[of "2 * i + k" 2 m] h1 by (simp add: mult.commute)
  have md: "(2 * i + k) mod (m * 2) = 2 * (i mod m) + k"
    using mod_mult2_eq[of "2 * i + k" 2 m] h1 h2 by (simp add: mult.commute)
  have d2: "(2 * i + k) mod (m * 2) div 2 = i mod m"
    using assms(2) by (simp add: md)
  have d3: "(2 * i + k) mod (m * 2) mod 2 = k"
    using assms(2) by (simp add: md)
  have sh: "shape (np_mgrid2 (int m) (int n)) = [2, m, n]" by (simp add: np_mgrid2_def)
  have un: "unravel [n, m, 2] (2 * i + k) = [i div m, i mod m, k]"
    by (simp add: d1 d2 d3)
  have rv: "ravel [2, m, n] (rev [i div m, i mod m, k]) = k * (m * n) + i mod m * n + i div m"
    by simp
  have len: "2 * i + k < prod_list (shape (np_mgrid2 (int m) (int n)))"
    using p by (simp add: sh)
  have "data (np_T (np_mgrid2 (int m) (int n))) ! (2 * i + k)
          = data (np_mgrid2 (int m) (int n))
              ! ravel [2, m, n] (rev (unravel (rev [2, m, n]) (2 * i + k)))"
    unfolding np_T_def using len by (simp add: sh del: ravel.simps unravel.simps)
  also have "\<dots> = data (np_mgrid2 (int m) (int n)) ! (k * (m * n) + i mod m * n + i div m)"
    using un rv by (simp del: ravel.simps unravel.simps)
  finally have "data (np_T (np_mgrid2 (int m) (int n))) ! (2 * i + k)
          = data (np_mgrid2 (int m) (int n)) ! (k * (m * n) + (i mod m) * n + i div m)" .
  then show ?thesis
    using mgrid_plane0[OF c r] mgrid_plane1[OF c r] assms(2)
    by (cases "k = 0") (auto simp: less_2_cases_iff)
qed

lemma upt_3: "[0..<3] = [0, 1, 2::nat]"
  by (simp add: upt_rec numeral_3_eq_3)

lemma generate_object_points_closed_form:
  "generate_object_points [int m, int n] s =
     Inr \<lparr>shape = [n * m, 3],
          data = concat (map (\<lambda>i. [fp_mul fl32 (fl32 (real (i mod m))) (to_float32 s),
                                    fp_mul fl32 (fl32 (real (i div m))) (to_float32 s),
                                    fp_mul fl32 (Finite 0) (to_float32 s)]) [0..<n * m])\<rparr>"
proof -
  let ?g = "np_T (np_mgrid2 (int m) (int n))"
  have z: "np_zeros2 (int n * int m) 3
             = Inr \<lparr>shape = [n * m, 3], data = replicate (n * m * 3) (Finite 0)\<rparr>"
  proof -
    have "int n * int m = int (n * m)" by simp
    then show ?thesis unfolding np_zeros2_def by (simp del: of_nat_mult)
  qed
  have sh: "shape ?g = [n, m, 2]" by (simp add: np_T_def np_mgrid2_def)
  have rs: "np_reshape_m1_2 ?g = Inr \<lparr>shape = [n * m, 2], data = data ?g\<rparr>"
    by (simp add: np_reshape_m1_2_def sh Let_def)
  have row: "(map (\<lambda>j. if j < 2 then fl32 (real_of_int (data ?g ! (i * 2 + j)))
                     else replicate (n * m * 3) (Finite 0) ! (i * 3 + j)) [0..<3])
             = [fl32 (real (i mod m)), fl32 (real (i div m)), Finite 0]" if "i < n * m" for i
  proof -
    have a: "data ?g ! (i * 2) = int (i mod m)"
      using mgrid_T_nth[OF that, of 0] by (simp add: mult.commute)
    have b: "data ?g ! (i * 2 + 1) = int (i div m)"
      using mgrid_T_nth[OF that, of 1] by (simp add: mult.commute)
    have c: "i * 3 + 2 < n * m * 3" using that by simp
    show ?thesis using a b c by (simp add: upt_3)
  qed
  have asg: "assign_first_two_columns
               \<lparr>shape = [n * m, 3], data = replicate (n * m * 3) (Finite 0)\<rparr>
               \<lparr>shape = [n * m, 2], data = data ?g\<rparr>
             = Inr \<lparr>shape = [n * m, 3],
                    data = concat (map (\<lambda>i. [fl32 (real (i mod m)), fl32 (real (i div m)), Finite 0])
                                    [0..<n * m])\<rparr>"
  proof -
    have "map (\<lambda>i. map (\<lambda>j. if j < 2 then fl32 (real_of_int (data ?g ! (i * 2 + j)))
                     else replicate (n * m * 3) (Finite 0) ! (i * 3 + j)) [0..<3]) [0..<n * m]
          = map (\<lambda>i. [fl32 (real (i mod m)), fl32 (real (i div m)), Finite 0]) [0..<n * m]"
      by (rule map_cong) (simp_all add: row)
    then have "concat (map (\<lambda>i. map (\<lambda>j. if j < 2 then fl32 (real_of_int (data ?g ! (i * 2 + j)))
                     else replicate (n * m * 3) (Finite 0) ! (i * 3 + j)) [0..<3]) [0..<n * m])
          = concat (map (\<lambda>i. [fl32 (real (i mod m)), fl32 (real (i div m)), Finite 0]) [0..<n * m])"
      by (rule arg_cong)
    then show ?thesis by (simp add: assign_first_two_columns_def cong: if_cong)
  qed
  show ?thesis
    by (simp add: generate_object_points_def subscript_def bind_result_def z rs asg imul_def
        map_concat o_def)
qed

lemma rows3_nth:
  assumes "i < N" "k < 3"
  shows "concat (map (\<lambda>i. [f i, g i, h i]) [0..<N]) ! (3 * i + k) = [f i, g i, h i] ! k"
  using concat_map_nth[of i N k 3 "\<lambda>i. [f i, g i, h i]"] assms by (simp add: mult.commute)

subsection \<open>Rounding\<close>

lemma round_half_even_of_int: "round_half_even (of_int k) = k"
  by (simp add: round_half_even_def)

lemma fl32_zero: "fl32 0 = Finite 0"
  by (simp add: fl32_def round_to_format_def)

lemma scan_up_bounds:
  "2 powi e \<le> a \<Longrightarrow>
     2 powi (scan_up n e a) \<le> a \<and> e \<le> scan_up n e a
     \<and> (a < 2 powi (scan_up n e a + 1) \<or> scan_up n e a = e + int n)"
proof (induction n arbitrary: e)
  case 0
  then show ?case by simp
next
  case (Suc n)
  show ?case
  proof (cases "2 powi (e + 1) \<le> a")
    case True
    from Suc.IH[OF True] show ?thesis using True by auto
  next
    case False
    then show ?thesis using Suc.prems by auto
  qed
qed

lemma round_to_format_exact:
  assumes vpos: "0 < v"
    and ex: "exponent emin emax v = e"
    and quot: "v / 2 powi (e - int p + 1) = of_int k"
    and small: "v < 2 powi (emax + 1)"
  shows "round_to_format p emin emax v = Finite v"
proof -
  define q :: real where "q = 2 powi (e - int p + 1)"
  have qpos: "0 < q" by (simp add: q_def)
  have "of_int (round_half_even (v / q)) * q = v / q * q"
    using quot by (simp add: q_def round_half_even_of_int)
  also have "\<dots> = v" using qpos by simp
  finally have R: "of_int (round_half_even (v / q)) * q = v" .
  have nz: "v \<noteq> 0" "\<not> v < 0" "\<not> 2 powi (emax + 1) \<le> v" using vpos small by simp_all
  show ?thesis
    unfolding round_to_format_def Let_def abs_of_pos[OF vpos] ex q_def[symmetric] R
    using nz by simp
qed

lemma fl32_of_nat:
  assumes "n < 2 ^ 24"
  shows "fl32 (real n) = Finite (real n)"
proof (cases "n = 0")
  case True
  then show ?thesis by (simp add: fl32_zero)
next
  case False
  define a where "a = real n"
  define e where "e = scan_up 127 0 a"
  have a1: "1 \<le> a" using False by (simp add: a_def)
  have a24: "a < 2 ^ 24" using assms unfolding a_def
    by (metis of_nat_less_iff of_nat_numeral of_nat_power)
  have b: "2 powi e \<le> a \<and> 0 \<le> e" using scan_up_bounds[of 0 a 127] a1 by (simp add: e_def)
  have e24: "e < 24"
  proof (rule ccontr)
    assume "\<not> e < 24"
    then have "(2::real) powi 24 \<le> 2 powi e" by (intro power_int_increasing) auto
    then show False using b a24 by simp
  qed
  define k where "k = nat (23 - e)"
  have q: "(2::real) powi (e - 23) = 1 / 2 ^ k"
  proof -
    have "e - 23 = - int k" using e24 by (simp add: k_def)
    then have "(2::real) powi (e - 23) = 2 powi (- int k)" by simp
    also have "\<dots> = inverse (2 ^ k)" by (simp only: power_int_minus power_int_of_nat)
    finally show ?thesis by (simp add: inverse_eq_divide)
  qed
  have quot: "a / (2 powi (e - int 24 + 1)) = of_int (int (n * 2 ^ k))"
    using q by (simp add: a_def)
  have small: "a < 2 powi (127 + 1)" using a24 by simp
  have ex: "exponent (- 126) 127 a = e" using a1 by (simp add: exponent_def e_def)
  have apos: "0 < a" using a1 by simp
  show ?thesis
    unfolding fl32_def a_def[symmetric]
    by (rule round_to_format_exact[OF apos ex quot small])
qed


text \<open>
  Claim C1 as stated asks for the point \<open>(col_index * square_size, row_index * square_size, 0)\<close>.
  The array is \<open>float32\<close>: for the pattern \<open>(4, 2)\<close> and a square of 22.3 the point at flat index
  \<open>0 * 4 + 3\<close> has the X coordinate 2192179/32768 (66.89999389648438), the \<open>float32\<close> product of
  3 and the \<open>float32\<close> nearest to 22.3, and not 3 * 22.3.
\<close>

theorem generate_object_points_float32_counterexample:
  "(case generate_object_points [4, 2] (Finite (223 / 10)) of
      Inl e \<Rightarrow> False
    | Inr objp \<Rightarrow>
        point3 objp (0 * 4 + 3) = (Finite (2192179 / 32768), Finite 0, Finite 0)
        \<and> point3 objp (0 * 4 + 3) \<noteq> (Finite (3 * (223 / 10)), Finite (0 * (223 / 10)), Finite 0))"
proof -
  let ?s = "Finite (223 / 10)"
  let ?f = "\<lambda>i::nat. fp_mul fl32 (fl32 (real (i mod 4))) (to_float32 ?s)"
  let ?g = "\<lambda>i::nat. fp_mul fl32 (fl32 (real (i div 4))) (to_float32 ?s)"
  let ?h = "\<lambda>i::nat. fp_mul fl32 (Finite 0) (to_float32 ?s)"
  let ?objp = "\<lparr>shape = [2 * 4, 3], data = concat (map (\<lambda>i. [?f i, ?g i, ?h i]) [0..<2 * 4])\<rparr>"
  have gen: "generate_object_points [4, 2] ?s = Inr ?objp"
    using generate_object_points_closed_form[of 4 2 ?s] by simp
  have s32: "to_float32 ?s = Finite (5845811 / 262144)" by code_simp
  have x: "fp_mul fl32 (Finite 3) (Finite (5845811 / 262144)) = Finite (2192179 / 32768)"
    by code_simp
  have three: "fl32 (real 3) = Finite (real 3)" by (rule fl32_of_nat) simp
  have zero: "fp_mul fl32 (Finite 0) (Finite (5845811 / 262144)) = Finite 0"
    by (simp add: fp_mul_def fl32_zero)
  have i: "(3::nat) < 2 * 4" by simp
  note r = rows3_nth[OF i, where f = ?f and g = ?g and h = ?h]
  have pt: "point3 ?objp (0 * 4 + 3) = (Finite (2192179 / 32768), Finite 0, Finite 0)"
    using r[of 0] r[of 1] r[of 2] three by (simp add: point3_def s32 x zero fl32_zero)
  show ?thesis unfolding gen using pt by simp
qed

text \<open>
  Claim C1, amended. For a valid pattern geometry (\<open>cols \<ge> 2\<close>, \<open>rows \<ge> 2\<close>, \<open>square_size > 0\<close>)
  whose square size \<open>v\<close> rounds to a finite \<open>float32\<close> \<open>w\<close>, \<open>generate_object_points\<close> returns
  without raising an array of shape \<open>(cols * rows, 3)\<close>, that is exactly \<open>cols * rows\<close> points;
  every point has Z = 0; and the point at flat index \<open>row_index * cols + col_index\<close> is
  \<open>(col_index * w, row_index * w, 0)\<close> with each product computed in \<open>float32\<close>, which for
  indices below \<open>2^24\<close> is the exact product rounded once to \<open>float32\<close>: the grid is
  flattened in row-major order.
\<close>

theorem generate_object_points_row_major:
  assumes "2 \<le> cols" and "2 \<le> rows" and "0 < v" and "fl32 v = Finite w"
  shows "\<exists>objp. generate_object_points [cols, rows] (Finite v) = Inr objp
           \<and> shape objp = [nat (cols * rows), 3]
           \<and> length (data objp) = 3 * nat (cols * rows)
           \<and> (\<forall>i. i < nat (cols * rows) \<longrightarrow> snd (snd (point3 objp i)) = Finite 0)
           \<and> (\<forall>row_index col_index. row_index < nat rows \<and> col_index < nat cols \<longrightarrow>
                 point3 objp (row_index * nat cols + col_index)
                   = (fp_mul fl32 (fl32 (real col_index)) (Finite w),
                      fp_mul fl32 (fl32 (real row_index)) (Finite w), Finite 0))
           \<and> (\<forall>row_index col_index. row_index < nat rows \<and> col_index < nat cols
                   \<and> row_index < 2 ^ 24 \<and> col_index < 2 ^ 24 \<longrightarrow>
                 point3 objp (row_index * nat cols + col_index)
                   = (fl32 (real col_index * w), fl32 (real row_index * w), Finite 0))"
proof -
  obtain m n where mn: "cols = int m" "rows = int n"
    using assms(1,2) by (metis nat_0_le order_trans zero_le_numeral)
  let ?f = "\<lambda>i. fp_mul fl32 (fl32 (real (i mod m))) (Finite w)"
  let ?g = "\<lambda>i. fp_mul fl32 (fl32 (real (i div m))) (Finite w)"
  let ?objp = "\<lparr>shape = [n * m, 3],
                 data = concat (map (\<lambda>i. [?f i, ?g i, Finite 0]) [0..<n * m])\<rparr>"
  have N: "nat (cols * rows) = n * m"
    unfolding mn by (metis nat_int of_nat_mult mult.commute)
  have zero: "fp_mul fl32 (Finite 0) (Finite w) = Finite 0"
    by (simp add: fp_mul_def fl32_zero)
  have gen: "generate_object_points [cols, rows] (Finite v) = Inr ?objp"
    unfolding mn generate_object_points_closed_form
    by (simp add: to_float32_def assms(4) zero)
  have len: "length (data ?objp) = 3 * (n * m)"
    using length_concat_map_const[of "n * m" "\<lambda>i. [?f i, ?g i, Finite 0]" 3]
    by (simp add: mult.commute)
  have pt: "point3 ?objp i = (?f i, ?g i, Finite 0)" if "i < n * m" for i
  proof -
    note r = rows3_nth[OF that, where f = ?f and g = ?g and h = "\<lambda>i. Finite 0"]
    show ?thesis using r[of 0] r[of 1] r[of 2] by (simp add: point3_def)
  qed
  have z: "\<forall>i. i < nat (cols * rows) \<longrightarrow> snd (snd (point3 ?objp i)) = Finite 0"
    using pt N by simp
  have rm: "point3 ?objp (r * nat cols + c)
              = (fp_mul fl32 (fl32 (real c)) (Finite w), fp_mul fl32 (fl32 (real r)) (Finite w),
                 Finite 0)"
    if "r < nat rows \<and> c < nat cols" for r c
  proof -
    have rc: "r < n" "c < m" using that mn by simp_all
    have b: "r * m + c < n * m" using grid_index_bound[OF rc] .
    show ?thesis using pt[OF b] rc by (simp add: mn)
  qed
  have ex: "point3 ?objp (r * nat cols + c) = (fl32 (real c * w), fl32 (real r * w), Finite 0)"
    if "r < nat rows \<and> c < nat cols \<and> r < 2 ^ 24 \<and> c < 2 ^ 24" for r c
    using rm[of r c] that by (simp add: fl32_of_nat fp_mul_def)
  show ?thesis
  proof (intro exI[of _ ?objp] conjI allI impI)
    show "generate_object_points [cols, rows] (Finite v) = Inr ?objp" by (rule gen)
    show "shape ?objp = [nat (cols * rows), 3]" by (simp add: N)
    show "length (data ?objp) = 3 * nat (cols * rows)" using len by (simp add: N)
    show "snd (snd (point3 ?objp i)) = Finite 0" if "i < nat (cols * rows)" for i
      using z that by blast
    show "point3 ?objp (r * nat cols + c)
            = (fp_mul fl32 (fl32 (real c)) (Finite w), fp_mul fl32 (fl32 (real r)) (Finite w),
               Finite 0)"
      if "r < nat rows \<and> c < nat cols" for r c
      by (rule rm[OF that])
    show "point3 ?objp (r * nat cols + c) = (fl32 (real c * w), fl32 (real r * w), Finite 0)"
      if "r < nat rows \<and> c < nat cols \<and> r < 2 ^ 24 \<and> c < 2 ^ 24" for r c
      by (rule ex[OF that])
  qed
qed

theorem generate_object_points_row_major_witness:
  "\<exists>objp. generate_object_points [4, 2] (Finite (223 / 10)) = Inr objp
      \<and> shape objp = [8, 3]
      \<and> length (data objp) = 24
      \<and> snd (snd (point3 objp 5)) = Finite 0
      \<and> point3 objp (1 * 4 + 3) = (fl32 (3 * (5845811 / 262144)), fl32 (1 * (5845811 / 262144)), Finite 0)"
proof -
  have h: "(2::int) \<le> 4" "(2::int) \<le> 2" "(0::real) < 223 / 10" by simp_all
  have f: "fl32 (223 / 10) = Finite (5845811 / 262144)" by code_simp
  from generate_object_points_row_major[OF h f] obtain objp where
    o: "generate_object_points [4, 2] (Finite (223 / 10)) = Inr objp"
       "shape objp = [nat (4 * 2), 3]"
       "length (data objp) = 3 * nat (4 * 2)"
       "\<forall>i. i < nat (4 * 2) \<longrightarrow> snd (snd (point3 objp i)) = Finite 0"
       "\<forall>row_index col_index. row_index < nat 2 \<and> col_index < nat 4
                   \<and> row_index < 2 ^ 24 \<and> col_index < 2 ^ 24 \<longrightarrow>
                 point3 objp (row_index * nat 4 + col_index)
                   = (fl32 (real col_index * (5845811 / 262144)),
                      fl32 (real row_index * (5845811 / 262144)), Finite 0)"
    by blast
  have a: "snd (snd (point3 objp 5)) = Finite 0" using o(4) by simp
  have b: "point3 objp (1 * 4 + 3)
             = (fl32 (3 * (5845811 / 262144)), fl32 (1 * (5845811 / 262144)), Finite 0)"
    using o(5)[rule_format, of 1 3] by simp
  show ?thesis using o(1,2,3) a b by (intro exI[of _ objp]) simp
qed

end
